theory Spec2Isabelle
  imports Complex_Main "HOL-Library.Sublist"
begin

section \<open>Python strings\<close>

text \<open>
  A Python \<open>str\<close> or \<open>bytes\<close> value is a \<^typ>\<open>string\<close>: the list of its bytes (UTF-8 for
  text). \<open>str.strip\<close> and \<open>str.lower\<close> are modelled on the ASCII range: the whitespace
  characters are the ASCII ones Python recognises (0x09-0x0D, 0x1C-0x1F and the blank), and
  lower-casing maps \<open>A-Z\<close> to \<open>a-z\<close>.
\<close>

definition isspace :: "char \<Rightarrow> bool" where
  "isspace c = (let n = (of_char c :: nat) in (9 \<le> n \<and> n \<le> 13) \<or> (28 \<le> n \<and> n \<le> 32))"

definition strip :: "string \<Rightarrow> string" where
  "strip s = rev (dropWhile isspace (rev (dropWhile isspace s)))"

definition lower_char :: "char \<Rightarrow> char" where
  "lower_char c =
     (case map_of (zip ''ABCDEFGHIJKLMNOPQRSTUVWXYZ'' ''abcdefghijklmnopqrstuvwxyz'') c of
        Some d \<Rightarrow> d
      | None \<Rightarrow> c)"

definition lower :: "string \<Rightarrow> string" where
  "lower s = map lower_char s"

text \<open>\<open>sep.join(parts)\<close>\<close>

fun join :: "string \<Rightarrow> string list \<Rightarrow> string" where
  "join sep [] = []"
| "join sep [x] = x"
| "join sep (x # y # ys) = x @ sep @ join sep (y # ys)"

text \<open>\<open>s.rsplit(sep, 1)\<close> for a one-character separator: at most one split, at the last
  occurrence.\<close>

definition rsplit1 :: "char \<Rightarrow> string \<Rightarrow> string list" where
  "rsplit1 sep s =
     (if sep \<in> set s
      then [rev (tl (dropWhile (\<lambda>c. c \<noteq> sep) (rev s))), rev (takeWhile (\<lambda>c. c \<noteq> sep) (rev s))]
      else [s])"

text \<open>\<open>str(n)\<close> for an integer: decimal digits, most significant first.\<close>

definition digit_char :: "nat \<Rightarrow> char" where
  "digit_char d =
     (if d = 0 then CHR ''0'' else if d = 1 then CHR ''1'' else if d = 2 then CHR ''2''
      else if d = 3 then CHR ''3'' else if d = 4 then CHR ''4'' else if d = 5 then CHR ''5''
      else if d = 6 then CHR ''6'' else if d = 7 then CHR ''7'' else if d = 8 then CHR ''8''
      else CHR ''9'')"

fun str_nat :: "nat \<Rightarrow> string" where
  "str_nat n = (if n < 10 then [digit_char n] else str_nat (n div 10) @ [digit_char (n mod 10)])"

declare str_nat.simps [simp del]

definition str_int :: "int \<Rightarrow> string" where
  "str_int i = (if i < 0 then CHR ''-'' # str_nat (nat (- i)) else str_nat (nat i))"

section \<open>Upload validation (app/utils/validation.py)\<close>

text \<open>
  \<open>ValidationError\<close> carries one of four messages. The message is kept as a constructor with
  the values its template interpolates:
  \<^item> \<open>No_file_provided\<close>: "No file provided";
  \<^item> \<open>File_type_not_allowed exts\<close>: "File type not allowed. Allowed types: ..." listing \<open>exts\<close>;
  \<^item> \<open>File_too_large m\<close>: "File too large. Maximum size: ...MB" for the limit \<open>m\<close> in bytes;
  \<^item> \<open>Invalid_file_type\<close>: "Invalid file type".
\<close>

datatype validation_error =
    No_file_provided
  | File_type_not_allowed "string set"
  | File_too_large int
  | Invalid_file_type

text \<open>The part of \<open>config.upload\<close> the validator reads.\<close>

record upload_config =
  cfg_max_file_size :: int
  cfg_allowed_extensions :: "string list"

text \<open>A werkzeug \<open>FileStorage\<close>: its filename (which may be \<open>None\<close>) and the bytes of its
  stream. The object is falsy exactly when its filename is.\<close>

record file_storage =
  filename :: "string option"
  content :: string

record file_validator =
  allowed_extensions :: "string set"
  max_file_size :: int

definition FileValidator_init :: "upload_config \<Rightarrow> file_validator" where
  "FileValidator_init cfg =
     \<lparr> allowed_extensions = set (map lower (cfg_allowed_extensions cfg)),
       max_file_size = cfg_max_file_size cfg \<rparr>"

definition is_allowed_extension :: "file_validator \<Rightarrow> string \<Rightarrow> bool" where
  "is_allowed_extension v fname =
     (if CHR ''.'' \<notin> set fname then False
      else let extension = lower (rsplit1 CHR ''.'' fname ! 1)
           in extension \<in> allowed_extensions v)"

text \<open>Seeking to the end and reading the position gives the length of the stream.\<close>

definition is_valid_size :: "file_validator \<Rightarrow> file_storage \<Rightarrow> bool" where
  "is_valid_size v f = (let size = int (length (content f)) in size \<le> max_file_size v)"

definition valid_mime_types :: "string set" where
  "valid_mime_types =
     {''image/jpeg'', ''image/jpg'', ''image/png'', ''image/bmp'',
      ''image/tiff'', ''image/webp'', ''image/gif'', ''application/pdf''}"

definition jpeg_sig :: string where "jpeg_sig = [CHR 0xFF, CHR 0xD8, CHR 0xFF]"
definition png_sig :: string where
  "png_sig = [CHR 0x89, CHR ''P'', CHR ''N'', CHR ''G'', CHR 0x0D, CHR 0x0A, CHR 0x1A, CHR 0x0A]"
definition bmp_sig :: string where "bmp_sig = ''BM''"
definition pdf_sig :: string where "pdf_sig = ''%PDF''"

text \<open>\<open>mimetypes.guess_type\<close> belongs to the standard library: it is a parameter, giving the
  guessed type of a filename or \<open>None\<close>.\<close>

definition is_valid_mime_type :: "(string \<Rightarrow> string option) \<Rightarrow> string \<Rightarrow> file_storage \<Rightarrow> bool" where
  "is_valid_mime_type guess_type fname f =
     (if (case guess_type fname of Some mime_type \<Rightarrow> mime_type \<in> valid_mime_types | None \<Rightarrow> False)
      then True
      else let header = take 1024 (content f)
           in if prefix jpeg_sig header then True
              else if prefix png_sig header then True
              else if prefix bmp_sig header then True
              else if prefix pdf_sig header then True
              else False)"

text \<open>\<open>validate_file\<close>: the argument may be \<open>None\<close>; \<open>Inl\<close> is the raised
  \<open>ValidationError\<close>.\<close>

definition validate_file ::
  "file_validator \<Rightarrow> (string \<Rightarrow> string option) \<Rightarrow> file_storage option \<Rightarrow> validation_error + bool" where
  "validate_file v guess_type file =
     (case file of
        None \<Rightarrow> Inl No_file_provided
      | Some f \<Rightarrow>
          (case filename f of
             None \<Rightarrow> Inl No_file_provided
           | Some fname \<Rightarrow>
               if fname = [] then Inl No_file_provided
               else if \<not> is_allowed_extension v fname
                 then Inl (File_type_not_allowed (allowed_extensions v))
               else if \<not> is_valid_size v f then Inl (File_too_large (max_file_size v))
               else if \<not> is_valid_mime_type guess_type fname f then Inl Invalid_file_type
               else Inr True))"

text \<open>
  The four conditions of a valid upload, in the words of the description: a non-empty
  filename, an allowed extension (the part after the last dot, lower-cased), a size within the
  limit, and a known MIME type or signature at the start of the bytes.
\<close>

definition file_name :: "file_storage option \<Rightarrow> string" where
  "file_name file =
     (case file of None \<Rightarrow> [] | Some f \<Rightarrow> (case filename f of None \<Rightarrow> [] | Some n \<Rightarrow> n))"

definition file_bytes :: "file_storage option \<Rightarrow> string" where
  "file_bytes file = (case file of None \<Rightarrow> [] | Some f \<Rightarrow> content f)"

definition extension_of :: "string \<Rightarrow> string" where
  "extension_of fname = lower (rev (takeWhile (\<lambda>c. c \<noteq> CHR ''.'') (rev fname)))"

definition extension_ok :: "file_validator \<Rightarrow> string \<Rightarrow> bool" where
  "extension_ok v fname = (CHR ''.'' \<in> set fname \<and> extension_of fname \<in> allowed_extensions v)"

definition signature_ok :: "(string \<Rightarrow> string option) \<Rightarrow> string \<Rightarrow> string \<Rightarrow> bool" where
  "signature_ok guess_type fname bytes =
     ((case guess_type fname of Some m \<Rightarrow> m \<in> valid_mime_types | None \<Rightarrow> False)
      \<or> prefix jpeg_sig bytes \<or> prefix png_sig bytes \<or> prefix bmp_sig bytes \<or> prefix pdf_sig bytes)"

definition failure_reasons :: "file_validator \<Rightarrow> validation_error set" where
  "failure_reasons v =
     {No_file_provided, File_type_not_allowed (allowed_extensions v),
      File_too_large (max_file_size v), Invalid_file_type}"

section \<open>Exceptions and images\<close>

text \<open>An exception is its class and its message; \<open>str(e)\<close> is the message.\<close>

datatype exn_class =
    OCRError | ModelError | ImageProcessingError
  | ImportError | ZeroDivisionError | ValueError | OtherError

datatype error = Raise exn_class string

fun exn_class_of :: "error \<Rightarrow> exn_class" where
  "exn_class_of (Raise c m) = c"

fun str_exn :: "error \<Rightarrow> string" where
  "str_exn (Raise c m) = m"

text \<open>
  A PIL image: its size (never negative), mode and format attributes, and an opaque token
  standing for the pixel buffer. Python floats are idealised as reals.
\<close>

record image =
  width :: nat
  height :: nat
  mode :: string
  format :: "string option"
  pixels :: nat

type_synonym bbox = "(int \<times> int) list"
type_synonym detection = "bbox \<times> string \<times> real"

text \<open>
  Everything outside the repository that the code calls: the file system with the image
  decoder, the pixel operations of PIL and OpenCV, and the three engines. Each call either
  raises or returns.
  \<^item> \<open>fs_open path\<close>: \<open>None\<close> when \<open>os.path.exists\<close> is false, otherwise what
    \<open>Image.open\<close> does;
  \<^item> \<open>pil_convert\<close>, \<open>pil_resize\<close>, \<open>pil_copy\<close>: the pixel buffer after the operation;
  \<^item> \<open>cv_clahe\<close>, \<open>cv_denoise\<close>: the OpenCV pipelines of the two enhancement steps;
  \<^item> \<open>easyocr_readtext\<close>: importing EasyOCR, building the reader and reading the text;
  \<^item> \<open>pytesseract_image_to_string\<close>: importing pytesseract and running it;
  \<^item> \<open>model_generate\<close>: encoding the image, generating with the local model and decoding.
\<close>

record world =
  fs_open :: "string \<Rightarrow> (error + image) option"
  pil_convert :: "image \<Rightarrow> string \<Rightarrow> error + nat"
  pil_resize :: "image \<Rightarrow> int \<Rightarrow> int \<Rightarrow> error + nat"
  pil_copy :: "image \<Rightarrow> error + nat"
  cv_clahe :: "image \<Rightarrow> error + nat"
  cv_denoise :: "image \<Rightarrow> error + nat"
  easyocr_readtext :: "image \<Rightarrow> error + detection list"
  pytesseract_image_to_string :: "image \<Rightarrow> error + string"
  model_generate :: "image \<Rightarrow> string \<Rightarrow> error + string"

text \<open>\<open>int(x)\<close> on a float truncates towards zero.\<close>

definition py_int :: "real \<Rightarrow> int" where
  "py_int x = (if 0 \<le> x then \<lfloor>x\<rfloor> else \<lceil>x\<rceil>)"

text \<open>\<open>a / b\<close> on integers: true division, raising on a zero divisor.\<close>

definition truediv :: "int \<Rightarrow> int \<Rightarrow> error + real" where
  "truediv a b =
     (if b = 0 then Inl (Raise ZeroDivisionError ''division by zero'')
      else Inr (real_of_int a / real_of_int b))"

text \<open>\<open>Image.convert\<close>, \<open>Image.resize\<close> and \<open>Image.copy\<close> return a new image object, whose
  format is \<open>None\<close>. PIL refuses a target size with a side below one pixel.\<close>

definition Image_convert :: "world \<Rightarrow> image \<Rightarrow> string \<Rightarrow> error + image" where
  "Image_convert w img m =
     (case pil_convert w img m of
        Inl e \<Rightarrow> Inl e
      | Inr p \<Rightarrow> Inr (img\<lparr>mode := m, format := None, pixels := p\<rparr>))"

definition Image_resize :: "world \<Rightarrow> image \<Rightarrow> int \<Rightarrow> int \<Rightarrow> error + image" where
  "Image_resize w img new_width new_height =
     (if new_width < 1 \<or> new_height < 1
      then Inl (Raise ValueError ''height and width must be > 0'')
      else case pil_resize w img new_width new_height of
             Inl e \<Rightarrow> Inl e
           | Inr p \<Rightarrow>
               Inr (img\<lparr>width := nat new_width, height := nat new_height,
                        format := None, pixels := p\<rparr>))"

definition Image_copy :: "world \<Rightarrow> image \<Rightarrow> error + image" where
  "Image_copy w img =
     (case pil_copy w img of
        Inl e \<Rightarrow> Inl e
      | Inr p \<Rightarrow> Inr (img\<lparr>format := None, pixels := p\<rparr>))"

section \<open>Image preprocessing (app/utils/image_processor.py)\<close>

record preprocessing_config =
  pp_enabled :: bool
  pp_resize :: bool
  pp_denoise :: bool
  pp_enhance_contrast :: bool

definition resize_image :: "world \<Rightarrow> image \<Rightarrow> int \<Rightarrow> error + image" where
  "resize_image w img max_size =
     (if int (max (width img) (height img)) \<le> max_size then Inr img
      else if width img > height img then
        (case truediv (int (height img) * max_size) (int (width img)) of
           Inl e \<Rightarrow> Inl e
         | Inr q \<Rightarrow> Image_resize w img max_size (py_int q))
      else
        (case truediv (int (width img) * max_size) (int (height img)) of
           Inl e \<Rightarrow> Inl e
         | Inr q \<Rightarrow> Image_resize w img (py_int q) max_size))"

text \<open>The body of \<open>load_image\<close>, inside its \<open>try\<close>.\<close>

definition load_image_body :: "world \<Rightarrow> int \<Rightarrow> string \<Rightarrow> error + image" where
  "load_image_body w max_size image_path =
     (case fs_open w image_path of
        None \<Rightarrow> Inl (Raise ImageProcessingError (''Image file not found: '' @ image_path))
      | Some (Inl e) \<Rightarrow> Inl e
      | Some (Inr opened) \<Rightarrow>
          (case (if mode opened \<noteq> ''RGB'' then Image_convert w opened ''RGB'' else Inr opened) of
             Inl e \<Rightarrow> Inl e
           | Inr img \<Rightarrow>
               if int (max (width img) (height img)) > max_size then resize_image w img max_size
               else Inr img))"

definition load_image :: "world \<Rightarrow> int \<Rightarrow> string \<Rightarrow> error + image" where
  "load_image w max_size image_path =
     (case load_image_body w max_size image_path of
        Inl e \<Rightarrow> Inl (Raise ImageProcessingError (''Image loading failed: '' @ str_exn e))
      | Inr img \<Rightarrow> Inr img)"

definition optimize_size :: "world \<Rightarrow> image \<Rightarrow> error + image" where
  "optimize_size w img =
     (let min_size = 1000 in
      if int (max (width img) (height img)) < min_size then
        (case truediv min_size (int (max (width img) (height img))) of
           Inl e \<Rightarrow> Inl e
         | Inr scale_factor \<Rightarrow>
             Image_resize w img (py_int (real (width img) * scale_factor))
                                (py_int (real (height img) * scale_factor)))
      else Inr img)"

text \<open>Both enhancement steps keep the original image when OpenCV raises; otherwise
  \<open>Image.fromarray\<close> builds an RGB image of the same size.\<close>

definition enhance_contrast :: "world \<Rightarrow> image \<Rightarrow> image" where
  "enhance_contrast w img =
     (case cv_clahe w img of
        Inl e \<Rightarrow> img
      | Inr p \<Rightarrow> img\<lparr>mode := ''RGB'', format := None, pixels := p\<rparr>)"

definition denoise_image :: "world \<Rightarrow> image \<Rightarrow> image" where
  "denoise_image w img =
     (case cv_denoise w img of
        Inl e \<Rightarrow> img
      | Inr p \<Rightarrow> img\<lparr>mode := ''RGB'', format := None, pixels := p\<rparr>)"

definition preprocess_image_body :: "world \<Rightarrow> preprocessing_config \<Rightarrow> image \<Rightarrow> error + image" where
  "preprocess_image_body w pp img =
     (case Image_copy w img of
        Inl e \<Rightarrow> Inl e
      | Inr copied \<Rightarrow>
          (case (if pp_resize pp then optimize_size w copied else Inr copied) of
             Inl e \<Rightarrow> Inl e
           | Inr sized \<Rightarrow>
               (let enhanced = (if pp_enhance_contrast pp then enhance_contrast w sized else sized);
                    denoised = (if pp_denoise pp then denoise_image w enhanced else enhanced)
                in Inr denoised)))"

definition preprocess_image :: "world \<Rightarrow> preprocessing_config \<Rightarrow> image \<Rightarrow> error + image" where
  "preprocess_image w pp img =
     (case preprocess_image_body w pp img of
        Inl e \<Rightarrow> Inl (Raise ImageProcessingError (''Preprocessing failed: '' @ str_exn e))
      | Inr processed \<Rightarrow> Inr processed)"

section \<open>The OCR dispatcher (app/ocr/deepseek_ocr.py)\<close>

text \<open>A result is a Python dictionary from string keys to values.\<close>

datatype pyval = Str string | Num real | IntV int | Bool bool | Tuple2 int int

type_synonym pydict = "string \<rightharpoonup> pyval"

text \<open>The configuration fields the dispatcher reads.\<close>

record ocr_config =
  model_name :: string
  use_local :: bool
  local_path :: string
  deepseek_api_key :: string
  max_image_size :: int
  preprocessing :: preprocessing_config

text \<open>A \<open>DeepSeekOCR\<close> object: its configuration and whether \<open>self.model\<close> and
  \<open>self.tokenizer\<close> hold a loaded object.\<close>

record deepseek_ocr =
  config :: ocr_config
  model_loaded :: bool
  tokenizer_loaded :: bool

text \<open>
  \<open>_load_local_model\<close>: the model path must exist, then the tokenizer and the model are
  loaded in this order and the model is put in evaluation mode; every failure is raised as
  \<open>ModelError\<close>. The arguments say whether the path exists and whether each of the three
  calls raises.
\<close>

definition load_local_model ::
  "bool \<Rightarrow> error option \<Rightarrow> error option \<Rightarrow> error option \<Rightarrow> deepseek_ocr
     \<Rightarrow> error option \<times> deepseek_ocr" where
  "load_local_model path_exists tokenizer_fails model_fails eval_fails ocr =
     (if \<not> path_exists
      then (Some (Raise ModelError (''Local model loading failed: '' @
                    (''Model path not found: '' @ local_path (config ocr)))), ocr)
      else case tokenizer_fails of
             Some e \<Rightarrow> (Some (Raise ModelError (''Local model loading failed: '' @ str_exn e)), ocr)
           | None \<Rightarrow>
               (case model_fails of
                  Some e \<Rightarrow>
                    (Some (Raise ModelError (''Local model loading failed: '' @ str_exn e)),
                     ocr\<lparr>tokenizer_loaded := True\<rparr>)
                | None \<Rightarrow>
                    (case eval_fails of
                       Some e \<Rightarrow>
                         (Some (Raise ModelError (''Local model loading failed: '' @ str_exn e)),
                          ocr\<lparr>tokenizer_loaded := True, model_loaded := True\<rparr>)
                     | None \<Rightarrow> (None, ocr\<lparr>tokenizer_loaded := True, model_loaded := True\<rparr>))))"

text \<open>The constructor with \<open>_initialize_model\<close>: a failed load clears \<open>use_local\<close>.\<close>

definition DeepSeekOCR_init ::
  "ocr_config \<Rightarrow> bool \<Rightarrow> error option \<Rightarrow> error option \<Rightarrow> error option \<Rightarrow> deepseek_ocr" where
  "DeepSeekOCR_init cfg path_exists tokenizer_fails model_fails eval_fails =
     (let ocr = \<lparr>config = cfg, model_loaded = False, tokenizer_loaded = False\<rparr> in
      if use_local cfg then
        (case load_local_model path_exists tokenizer_fails model_fails eval_fails ocr of
           (Some e, ocr') \<Rightarrow> ocr'\<lparr>config := (config ocr')\<lparr>use_local := False\<rparr>\<rparr>
         | (None, ocr') \<Rightarrow> ocr')
      else ocr)"

text \<open>The steps of a dispatch, in the order of their priority.\<close>

datatype step = LocalModel | RemoteAPI | EasyOCR | Tesseract | Placeholder


fun method_tag :: "step \<Rightarrow> string" where
  "method_tag LocalModel = ''deepseek_local''"
| "method_tag RemoteAPI = ''api_limitation''"
| "method_tag EasyOCR = ''easyocr_fallback''"
| "method_tag Tesseract = ''tesseract_fallback''"
| "method_tag Placeholder = ''demo_mode''"

definition default_prompt :: string where
  "default_prompt =
     ''Extract all text from this image. Provide the text exactly as it appears, maintaining formatting and structure.''"

subsection \<open>The local model\<close>

definition extract_text_local_body ::
  "world \<Rightarrow> deepseek_ocr \<Rightarrow> image \<Rightarrow> string option \<Rightarrow> error + pydict" where
  "extract_text_local_body w ocr img prompt =
     (if \<not> model_loaded ocr \<or> \<not> tokenizer_loaded ocr
      then Inl (Raise ModelError ''Local model not initialized'')
      else let prompt' = (case prompt of None \<Rightarrow> default_prompt | Some p \<Rightarrow> p) in
           case model_generate w img prompt' of
             Inl e \<Rightarrow> Inl e
           | Inr response \<Rightarrow>
               Inr [''text'' \<mapsto> Str (strip response),
                    ''confidence'' \<mapsto> Num 1,
                    ''method'' \<mapsto> Str ''deepseek_local''])"

definition extract_text_local ::
  "world \<Rightarrow> deepseek_ocr \<Rightarrow> image \<Rightarrow> string option \<Rightarrow> error + pydict" where
  "extract_text_local w ocr img prompt =
     (case extract_text_local_body w ocr img prompt of
        Inl e \<Rightarrow> Inl (Raise OCRError (''Local OCR processing failed: '' @ str_exn e))
      | Inr result \<Rightarrow> Inr result)"

subsection \<open>The placeholder\<close>

definition demo_head :: string where
  "demo_head =
     ''OCR Processing Failed\<newline>'' @
     ''            \<newline>'' @
     ''All OCR methods were attempted but none could extract text from this image.\<newline>'' @
     ''\<newline>'' @
     ''Image Details:\<newline>'' @
     ''- Dimensions: ''"

definition demo_tail :: string where
  "demo_tail =
     ''\<newline>'' @
     ''\<newline>'' @
     ''Attempted Methods:\<newline>'' @
     ''1. '' @
     [CHR 0xE2, CHR 0x9C, CHR 0x97] @
     '' DeepSeek API (not supported yet)\<newline>'' @
     ''2. '' @
     [CHR 0xE2, CHR 0x9C, CHR 0x97] @
     '' EasyOCR (no text found with sufficient confidence)\<newline>'' @
     ''3. '' @
     [CHR 0xE2, CHR 0x9C, CHR 0x97] @
     '' Tesseract (no text detected or not installed)\<newline>'' @
     ''\<newline>'' @
     ''Possible reasons:\<newline>'' @
     ''- Image may not contain readable text\<newline>'' @
     ''- Text might be too small, blurry, or in a complex layout\<newline>'' @
     ''- Handwritten text is harder to recognize\<newline>'' @
     ''- Image quality might be too low\<newline>'' @
     ''\<newline>'' @
     ''Suggestions:\<newline>'' @
     ''- Try a clearer, higher resolution image\<newline>'' @
     ''- Ensure text is clearly visible and readable\<newline>'' @
     ''- Use images with printed (not handwritten) text\<newline>'' @
     ''- Check if the image actually contains text''"

text \<open>\<open>image.format or 'Unknown'\<close>: \<open>None\<close> and the empty string are falsy.\<close>

definition format_or_unknown :: "image \<Rightarrow> string" where
  "format_or_unknown img =
     (case format img of None \<Rightarrow> ''Unknown'' | Some f \<Rightarrow> if f = [] then ''Unknown'' else f)"

definition demo_text :: "image \<Rightarrow> string" where
  "demo_text img =
     demo_head @ str_int (int (width img)) @ '' x '' @ str_int (int (height img)) @
     '' pixels\<newline>'' @
     ''- Color mode: '' @ mode img @ ''\<newline>'' @
     ''- Format: '' @ format_or_unknown img @ demo_tail"

definition extract_text_demo :: "image \<Rightarrow> string option \<Rightarrow> error + pydict" where
  "extract_text_demo img prompt =
     Inr [''text'' \<mapsto> Str (strip (demo_text img)),
          ''confidence'' \<mapsto> Num 0,
          ''method'' \<mapsto> Str ''demo_mode'',
          ''warning'' \<mapsto> Str ''Demo mode active - please configure model or API for real OCR'']"

subsection \<open>The remote API\<close>

definition api_notice_head :: string where
  "api_notice_head =
     ''API Limitation Notice:\<newline>'' @
     ''\<newline>'' @
     ''DeepSeek's current API does not support image processing/vision capabilities yet.\<newline>'' @
     ''\<newline>'' @
     ''To use OCR functionality, you have these options:\<newline>'' @
     ''\<newline>'' @
     ''1. **Use Local Model** (Recommended):\<newline>'' @
     ''   - Download the DeepSeek-VL model\<newline>'' @
     ''   - Set USE_LOCAL_MODEL=true in your .env file\<newline>'' @
     ''   - Requires ~14GB of disk space and GPU/CPU resources\<newline>'' @
     ''\<newline>'' @
     ''2. **Use Alternative OCR**:\<newline>'' @
     ''   - Install EasyOCR: pip install easyocr\<newline>'' @
     ''   - Or use Tesseract OCR for basic text extraction\<newline>'' @
     ''\<newline>'' @
     ''3. **Wait for API Update**:\<newline>'' @
     ''   - DeepSeek may add vision capabilities to their API in the future\<newline>'' @
     ''\<newline>'' @
     ''For now, the application is running in demonstration mode.\<newline>'' @
     ''Your image was uploaded successfully but cannot be processed via API.\<newline>'' @
     ''\<newline>'' @
     ''Original prompt: ''"

definition api_notice :: "string \<Rightarrow> image \<Rightarrow> string" where
  "api_notice prompt img =
     api_notice_head @ prompt @ ''\<newline>'' @
     ''Image size: '' @ ''('' @ str_int (int (width img)) @ '', '' @ str_int (int (height img)) @ '')'' @
     ''\<newline>'' @
     ''Image mode: '' @ mode img"

text \<open>\<open>_extract_text_api\<close> catches its own exceptions and returns an error result.\<close>

definition extract_text_api_body :: "ocr_config \<Rightarrow> image \<Rightarrow> string option \<Rightarrow> error + pydict" where
  "extract_text_api_body cfg img prompt =
     (if deepseek_api_key cfg = [] then Inl (Raise OCRError ''DeepSeek API key not configured'')
      else let prompt' = (case prompt of None \<Rightarrow> default_prompt | Some p \<Rightarrow> p) in
           Inr [''text'' \<mapsto> Str (api_notice prompt' img),
                ''confidence'' \<mapsto> Num 0,
                ''method'' \<mapsto> Str ''api_limitation'',
                ''warning'' \<mapsto> Str ''DeepSeek API does not currently support image processing''])"

definition extract_text_api :: "ocr_config \<Rightarrow> image \<Rightarrow> string option \<Rightarrow> error + pydict" where
  "extract_text_api cfg img prompt =
     (case extract_text_api_body cfg img prompt of
        Inl e \<Rightarrow>
          Inr [''text'' \<mapsto> Str (''API Error: '' @ str_exn e @
                                 ''\<newline>\<newline>Please use local model for image processing.''),
               ''confidence'' \<mapsto> Num 0,
               ''method'' \<mapsto> Str ''api_error'',
               ''error'' \<mapsto> Str (str_exn e)]
      | Inr result \<Rightarrow> Inr result)"

subsection \<open>The fallback engines\<close>

text \<open>\<open>round(x, 2)\<close>: to the nearest multiple of 0.01, a tie going to the even one.\<close>

definition round_half_even :: "real \<Rightarrow> int" where
  "round_half_even x =
     (let f = \<lfloor>x\<rfloor>; d = x - real_of_int f in
      if d < 1 / 2 then f
      else if d > 1 / 2 then f + 1
      else if even f then f else f + 1)"

definition py_round2 :: "real \<Rightarrow> real" where
  "py_round2 x = real_of_int (round_half_even (x * 100)) / 100"

text \<open>The loop over the detections, with its three accumulators.\<close>

fun easyocr_loop ::
  "detection list \<Rightarrow> string list \<times> real \<times> nat \<Rightarrow> string list \<times> real \<times> nat" where
  "easyocr_loop [] acc = acc"
| "easyocr_loop ((bbox, txt, confidence) # rest) (text_parts, total_confidence, valid_results) =
     (if confidence > 3 / 10
      then easyocr_loop rest (text_parts @ [txt], total_confidence + confidence, valid_results + 1)
      else easyocr_loop rest (text_parts, total_confidence, valid_results))"

text \<open>The EasyOCR step: \<open>None\<close> when it raises or accepts no detection, and the dispatch goes
  on to the next engine.\<close>

definition easyocr_step :: "world \<Rightarrow> image \<Rightarrow> pydict option" where
  "easyocr_step w img =
     (case easyocr_readtext w img of
        Inl e \<Rightarrow> None
      | Inr results \<Rightarrow>
          (case easyocr_loop results ([], 0, 0) of
             (text_parts, total_confidence, valid_results) \<Rightarrow>
               if text_parts \<noteq> [] then
                 (let extracted_text = join ''\<newline>'' text_parts;
                      avg_confidence =
                        (if valid_results > 0 then total_confidence / real valid_results else 0)
                  in Some [''text'' \<mapsto> Str (strip extracted_text),
                           ''confidence'' \<mapsto> Num (py_round2 avg_confidence),
                           ''method'' \<mapsto> Str ''easyocr_fallback'',
                           ''note'' \<mapsto> Str (''Using EasyOCR - extracted '' @
                                              str_int (int (length text_parts)) @ '' text segments''),
                           ''segments_found'' \<mapsto> IntV (int (length text_parts))])
               else None))"

text \<open>The Tesseract step: \<open>None\<close> when it raises or finds only whitespace.\<close>

definition tesseract_step :: "world \<Rightarrow> image \<Rightarrow> pydict option" where
  "tesseract_step w img =
     (case pytesseract_image_to_string w img of
        Inl e \<Rightarrow> None
      | Inr extracted_text \<Rightarrow>
          if strip extracted_text \<noteq> [] then
            Some [''text'' \<mapsto> Str (strip extracted_text),
                  ''confidence'' \<mapsto> Num (7 / 10),
                  ''method'' \<mapsto> Str ''tesseract_fallback'',
                  ''note'' \<mapsto> Str ''Using Tesseract as fallback OCR engine'',
                  ''character_count'' \<mapsto> IntV (int (length (strip extracted_text)))]
          else None)"

text \<open>
  \<open>_extract_text_fallback\<close>, with the list of the steps it attempted. An exception of the
  placeholder inside the outer \<open>try\<close> is caught by the handler, which calls the placeholder
  again.
\<close>

definition extract_text_fallback ::
  "world \<Rightarrow> image \<Rightarrow> string option \<Rightarrow> step list \<times> (error + pydict)" where
  "extract_text_fallback w img prompt =
     (case easyocr_step w img of
        Some result \<Rightarrow> ([EasyOCR], Inr result)
      | None \<Rightarrow>
          (case tesseract_step w img of
             Some result \<Rightarrow> ([EasyOCR, Tesseract], Inr result)
           | None \<Rightarrow>
               (case extract_text_demo img prompt of
                  Inr result \<Rightarrow> ([EasyOCR, Tesseract, Placeholder], Inr result)
                | Inl e \<Rightarrow>
                    ([EasyOCR, Tesseract, Placeholder, Placeholder], extract_text_demo img prompt))))"

subsection \<open>The dispatch\<close>

text \<open>The handler of \<open>extract_text\<close> raises every exception again as \<open>OCRError\<close>.\<close>

definition reraise :: "error \<Rightarrow> error" where
  "reraise e = Raise OCRError (''Text extraction failed: '' @ str_exn e)"

definition metadata :: "ocr_config \<Rightarrow> string \<Rightarrow> image \<Rightarrow> pydict" where
  "metadata cfg image_path img =
     [''image_path'' \<mapsto> Str image_path,
      ''image_size'' \<mapsto> Tuple2 (int (width img)) (int (height img)),
      ''model_used'' \<mapsto> Str (model_name cfg),
      ''processing_method'' \<mapsto> Str (if use_local cfg then ''local'' else ''api'')]"

text \<open>The \<open>try\<close> block around the API call, given what the call did: a limitation notice and
  an exception both lead to the fallback engines.\<close>

definition dispatch_api ::
  "world \<Rightarrow> image \<Rightarrow> string option \<Rightarrow> error + pydict \<Rightarrow> step list \<times> (error + pydict)" where
  "dispatch_api w img prompt api_outcome =
     (case api_outcome of
        Inr result \<Rightarrow>
          if result ''method'' = Some (Str ''api_limitation'')
          then (case extract_text_fallback w img prompt of (tr, r) \<Rightarrow> (RemoteAPI # tr, r))
          else ([RemoteAPI], Inr result)
      | Inl e \<Rightarrow>
          (case extract_text_fallback w img prompt of (tr, r) \<Rightarrow> (RemoteAPI # tr, r)))"

text \<open>The choice of the method, once the image is ready.\<close>

definition dispatch ::
  "world \<Rightarrow> deepseek_ocr \<Rightarrow> image \<Rightarrow> string option \<Rightarrow> step list \<times> (error + pydict)" where
  "dispatch w ocr img prompt =
     (let cfg = config ocr in
      if use_local cfg \<and> model_loaded ocr \<and> tokenizer_loaded ocr
      then ([LocalModel], extract_text_local w ocr img prompt)
      else if \<not> use_local cfg \<and> deepseek_api_key cfg \<noteq> []
      then dispatch_api w img prompt (extract_text_api cfg img prompt)
      else extract_text_fallback w img prompt)"

text \<open>\<open>extract_text\<close>: the steps attempted, and the result or the exception raised.\<close>

definition extract_text ::
  "world \<Rightarrow> deepseek_ocr \<Rightarrow> string \<Rightarrow> string option \<Rightarrow> step list \<times> (error + pydict)" where
  "extract_text w ocr image_path prompt =
     (let cfg = config ocr in
      case load_image w (max_image_size cfg) image_path of
        Inl e \<Rightarrow> ([], Inl (reraise e))
      | Inr loaded \<Rightarrow>
          (case (if pp_enabled (preprocessing cfg)
                 then preprocess_image w (preprocessing cfg) loaded else Inr loaded) of
             Inl e \<Rightarrow> ([], Inl (reraise e))
           | Inr img \<Rightarrow>
               (case dispatch w ocr img prompt of
                  (tr, Inl e) \<Rightarrow> (tr, Inl (reraise e))
                | (tr, Inr result) \<Rightarrow> (tr, Inr (result ++ metadata cfg image_path img)))))"

subsection \<open>Batch extraction\<close>

definition failure_record :: "string \<Rightarrow> error \<Rightarrow> pydict" where
  "failure_record image_path e =
     [''image_path'' \<mapsto> Str image_path,
      ''text'' \<mapsto> Str [],
      ''error'' \<mapsto> Str (str_exn e),
      ''success'' \<mapsto> Bool False]"

fun batch_loop ::
  "world \<Rightarrow> deepseek_ocr \<Rightarrow> string option \<Rightarrow> string list \<Rightarrow> pydict list \<Rightarrow> pydict list" where
  "batch_loop w ocr prompt [] results = results"
| "batch_loop w ocr prompt (image_path # rest) results =
     (case snd (extract_text w ocr image_path prompt) of
        Inr result \<Rightarrow> batch_loop w ocr prompt rest (results @ [result])
      | Inl e \<Rightarrow> batch_loop w ocr prompt rest (results @ [failure_record image_path e]))"

definition batch_extract_text ::
  "world \<Rightarrow> deepseek_ocr \<Rightarrow> string list \<Rightarrow> string option \<Rightarrow> pydict list" where
  "batch_extract_text w ocr image_paths prompt = batch_loop w ocr prompt image_paths []"

section \<open>Notions used to state the properties\<close>

text \<open>The image handed to the engines: loaded, then preprocessed when that is enabled.\<close>

definition prepared_image :: "world \<Rightarrow> ocr_config \<Rightarrow> string \<Rightarrow> error + image" where
  "prepared_image w cfg image_path =
     (case load_image w (max_image_size cfg) image_path of
        Inl e \<Rightarrow> Inl e
      | Inr loaded \<Rightarrow>
          if pp_enabled (preprocessing cfg) then preprocess_image w (preprocessing cfg) loaded
          else Inr loaded)"

text \<open>A key of the returned dictionary; \<open>None\<close> when the call raised.\<close>

definition field :: "string \<Rightarrow> step list \<times> (error + pydict) \<Rightarrow> pyval option" where
  "field k out = (case snd out of Inl e \<Rightarrow> None | Inr d \<Rightarrow> d k)"


fun det_text :: "detection \<Rightarrow> string" where
  "det_text (bbox, txt, confidence) = txt"

fun det_conf :: "detection \<Rightarrow> real" where
  "det_conf (bbox, txt, confidence) = confidence"

text \<open>The detections above the floor, and the mean of a list of numbers.\<close>

definition accepted :: "detection list \<Rightarrow> detection list" where
  "accepted dets = filter (\<lambda>d. det_conf d > 3 / 10) dets"

definition mean :: "real list \<Rightarrow> real" where
  "mean xs = sum_list xs / real (length xs)"

text \<open>The local model is the chosen method.\<close>

definition local_ready :: "deepseek_ocr \<Rightarrow> bool" where
  "local_ready ocr = (use_local (config ocr) \<and> model_loaded ocr \<and> tokenizer_loaded ocr)"



text \<open>EasyOCR reports the confidence of a detection as a probability.\<close>

definition easyocr_probabilities :: "world \<Rightarrow> bool" where
  "easyocr_probabilities w =
     (\<forall>img dets. easyocr_readtext w img = Inr dets \<longrightarrow> (\<forall>d \<in> set dets. det_conf d \<le> 1))"

definition final_methods :: "pyval set" where
  "final_methods =
     {Str ''deepseek_local'', Str ''easyocr_fallback'', Str ''tesseract_fallback'', Str ''demo_mode''}"

text \<open>The dictionary the EasyOCR step returns for a non-empty list of accepted detections.\<close>

definition easyocr_result :: "detection list \<Rightarrow> pydict" where
  "easyocr_result acc =
     [''text'' \<mapsto> Str (strip (join ''\<newline>'' (map det_text acc))),
      ''confidence'' \<mapsto> Num (py_round2 (mean (map det_conf acc))),
      ''method'' \<mapsto> Str ''easyocr_fallback'',
      ''note'' \<mapsto> Str (''Using EasyOCR - extracted '' @ str_int (int (length acc)) @
                         '' text segments''),
      ''segments_found'' \<mapsto> IntV (int (length acc))]"


text \<open>The entry of a batch for one path.\<close>

definition batch_item :: "world \<Rightarrow> deepseek_ocr \<Rightarrow> string option \<Rightarrow> string \<Rightarrow> pydict" where
  "batch_item w ocr prompt image_path =
     (case snd (extract_text w ocr image_path prompt) of
        Inr result \<Rightarrow> result
      | Inl e \<Rightarrow> failure_record image_path e)"

text \<open>A well-formed result: a confidence between 0 and 1, a text (non-empty when it comes
  from Tesseract or the placeholder) and one of the four final methods.\<close>

definition well_formed :: "pydict \<Rightarrow> bool" where
  "well_formed r =
     ((\<exists>c. r ''confidence'' = Some (Num c) \<and> 0 \<le> c \<and> c \<le> 1)
      \<and> (\<exists>t. r ''text'' = Some (Str t)
             \<and> (r ''method'' = Some (Str ''tesseract_fallback'') \<or> r ''method'' = Some (Str ''demo_mode'')
                  \<longrightarrow> t \<noteq> []))
      \<and> (\<exists>m \<in> final_methods. r ''method'' = Some m))"


section \<open>Example inputs\<close>

text \<open>The validator of the default configuration, and two uploads.\<close>

definition default_validator :: file_validator where
  "default_validator =
     FileValidator_init
       \<lparr> cfg_max_file_size = 52428800,
         cfg_allowed_extensions =
           [''jpg'', ''jpeg'', ''png'', ''bmp'', ''tiff'', ''pdf'', ''webp'', ''gif''] \<rparr>"

definition no_guess :: "string \<Rightarrow> string option" where
  "no_guess fname = None"

definition jpeg_upload :: file_storage where
  "jpeg_upload = \<lparr> filename = Some ''test.JPG'', content = jpeg_sig @ ''fake jpeg data'' \<rparr>"

definition dotless_upload :: file_storage where
  "dotless_upload = \<lparr> filename = Some ''no_extension'', content = jpeg_sig @ ''fake jpeg data'' \<rparr>"

text \<open>A world in which no file exists, the pixel operations succeed, no OCR library is
  installed and the local model fails.\<close>

definition bare_world :: world where
  "bare_world =
     \<lparr> fs_open = (\<lambda>path. None),
       pil_convert = (\<lambda>img m. Inr (pixels img)),
       pil_resize = (\<lambda>img nw nh. Inr (pixels img)),
       pil_copy = (\<lambda>img. Inr (pixels img)),
       cv_clahe = (\<lambda>img. Inr (pixels img)),
       cv_denoise = (\<lambda>img. Inr (pixels img)),
       easyocr_readtext = (\<lambda>img. Inl (Raise ImportError ''No module named easyocr'')),
       pytesseract_image_to_string = (\<lambda>img. Inl (Raise ImportError ''No module named pytesseract'')),
       model_generate = (\<lambda>img prompt. Inl (Raise OtherError ''generation failed'')) \<rparr>"

definition white_100 :: image where
  "white_100 = \<lparr> width = 100, height = 100, mode = ''RGB'', format = Some ''JPEG'', pixels = 0 \<rparr>"

definition wide_rgba :: image where
  "wide_rgba = \<lparr> width = 8000, height = 4000, mode = ''RGBA'', format = Some ''PNG'', pixels = 1 \<rparr>"

text \<open>The same world with one image file in it.\<close>

definition world_with :: "string \<Rightarrow> image \<Rightarrow> world" where
  "world_with path img =
     bare_world\<lparr> fs_open := (\<lambda>p. if p = path then Some (Inr img) else None) \<rparr>"

definition with_easyocr :: "detection list \<Rightarrow> world \<Rightarrow> world" where
  "with_easyocr dets w = w\<lparr> easyocr_readtext := (\<lambda>img. Inr dets) \<rparr>"

definition with_tesseract :: "string \<Rightarrow> world \<Rightarrow> world" where
  "with_tesseract out w = w\<lparr> pytesseract_image_to_string := (\<lambda>img. Inr out) \<rparr>"

definition with_model :: "string \<Rightarrow> world \<Rightarrow> world" where
  "with_model response w = w\<lparr> model_generate := (\<lambda>img prompt. Inr response) \<rparr>"

text \<open>The default configuration, and the same without preprocessing or with an API key.\<close>

definition default_config :: ocr_config where
  "default_config =
     \<lparr> model_name = ''deepseek-vl-7b-chat'', use_local = True,
       local_path = ''./models/deepseek-vl-7b-chat'', deepseek_api_key = [],
       max_image_size = 4096,
       preprocessing = \<lparr> pp_enabled = True, pp_resize = True, pp_denoise = True,
                         pp_enhance_contrast = True \<rparr> \<rparr>"

definition plain_config :: ocr_config where
  "plain_config =
     default_config\<lparr> preprocessing := \<lparr> pp_enabled = False, pp_resize = True, pp_denoise = True,
                                          pp_enhance_contrast = True \<rparr> \<rparr>"

definition api_config :: ocr_config where
  "api_config = plain_config\<lparr> use_local := False, deepseek_api_key := ''sk-test'' \<rparr>"

text \<open>Dispatchers built by the constructor: without a model on disk (default and plain
  configuration), with an API key, and with a model that loads.\<close>

definition ocr_default :: deepseek_ocr where
  "ocr_default = DeepSeekOCR_init default_config False None None None"

definition ocr_plain :: deepseek_ocr where
  "ocr_plain = DeepSeekOCR_init plain_config False None None None"

definition ocr_api :: deepseek_ocr where
  "ocr_api = DeepSeekOCR_init api_config False None None None"

definition ocr_local :: deepseek_ocr where
  "ocr_local = DeepSeekOCR_init plain_config True None None None"



definition three_detections :: "detection list" where
  "three_detections = [([], ''Hello'', 9 / 10), ([], ''noise'', 2 / 10), ([], ''World'', 1 / 2)]"

section \<open>Properties of upload validation\<close>

lemma prefix_take_iff: "prefix sg (take n bs) \<longleftrightarrow> prefix sg bs \<and> length sg \<le> n"
proof (induction sg arbitrary: n bs)
  case Nil
  show ?case by simp
next
  case (Cons a sg)
  show ?case
  proof (cases bs)
    case Nil
    then show ?thesis by simp
  next
    case (Cons b bs')
    show ?thesis
    proof (cases n)
      case 0
      then show ?thesis by simp
    next
      case (Suc k)
      then show ?thesis using Cons.IH [of k bs'] Cons by simp
    qed
  qed
qed

lemma rsplit1_last:
  "sep \<in> set s \<Longrightarrow> rsplit1 sep s ! Suc 0 = rev (takeWhile (\<lambda>c. c \<noteq> sep) (rev s))"
  by (simp add: rsplit1_def)

lemma is_allowed_extension_eq: "is_allowed_extension v n = extension_ok v n"
  by (simp add: is_allowed_extension_def extension_ok_def extension_of_def rsplit1_last)

lemma is_valid_mime_type_eq: "is_valid_mime_type g n f = signature_ok g n (content f)"
  by (auto simp: is_valid_mime_type_def signature_ok_def prefix_take_iff jpeg_sig_def png_sig_def
      bmp_sig_def pdf_sig_def Let_def split: option.splits)

lemma validate_file_cases:
  "validate_file v g file =
     (if file_name file = [] then Inl No_file_provided
      else if \<not> extension_ok v (file_name file)
        then Inl (File_type_not_allowed (allowed_extensions v))
      else if \<not> int (length (file_bytes file)) \<le> max_file_size v
        then Inl (File_too_large (max_file_size v))
      else if \<not> signature_ok g (file_name file) (file_bytes file) then Inl Invalid_file_type
      else Inr True)"
  by (simp add: validate_file_def file_name_def file_bytes_def is_allowed_extension_eq
      is_valid_mime_type_eq is_valid_size_def split: option.splits)

text \<open>
  Claim C10. \<open>validate_file\<close> returns \<open>True\<close> exactly when the upload has a non-empty
  filename, its extension (the part after the last dot, lower-cased) is in the validator's
  allowed set, its size is at most the maximum, and its guessed MIME type or its leading bytes
  are those of an image or a PDF. Otherwise it raises \<open>ValidationError\<close> with one of the four
  reasons, namely the one of the first check that fails; a filename without a dot is always
  rejected.
\<close>

theorem validate_file_spec:
  "(validate_file v g file = Inr True \<longleftrightarrow>
      file_name file \<noteq> [] \<and> extension_ok v (file_name file)
      \<and> int (length (file_bytes file)) \<le> max_file_size v
      \<and> signature_ok g (file_name file) (file_bytes file))
   \<and> (validate_file v g file \<noteq> Inr True \<longrightarrow>
        (\<exists>r \<in> failure_reasons v. validate_file v g file = Inl r))
   \<and> (CHR ''.'' \<notin> set (file_name file) \<longrightarrow>
        validate_file v g file = Inl No_file_provided
        \<or> validate_file v g file = Inl (File_type_not_allowed (allowed_extensions v)))
   \<and> validate_file v g file =
       (if file_name file = [] then Inl No_file_provided
        else if \<not> extension_ok v (file_name file)
          then Inl (File_type_not_allowed (allowed_extensions v))
        else if \<not> int (length (file_bytes file)) \<le> max_file_size v
          then Inl (File_too_large (max_file_size v))
        else if \<not> signature_ok g (file_name file) (file_bytes file) then Inl Invalid_file_type
        else Inr True)"
  unfolding validate_file_cases by (auto simp: failure_reasons_def extension_ok_def)

theorem validate_file_spec_witness:
  "validate_file default_validator no_guess (Some jpeg_upload) = Inr True
   \<and> CHR ''.'' \<notin> set (file_name (Some dotless_upload))
   \<and> validate_file default_validator no_guess (Some dotless_upload) \<noteq> Inr True
   \<and> validate_file default_validator no_guess (Some dotless_upload)
       = Inl (File_type_not_allowed (allowed_extensions default_validator))"
proof -
  have ok: "file_name (Some jpeg_upload) \<noteq> [] \<and> extension_ok default_validator (file_name (Some jpeg_upload))
      \<and> int (length (file_bytes (Some jpeg_upload))) \<le> max_file_size default_validator
      \<and> signature_ok no_guess (file_name (Some jpeg_upload)) (file_bytes (Some jpeg_upload))"
    by (simp add: file_name_def file_bytes_def jpeg_upload_def default_validator_def
        FileValidator_init_def extension_ok_def extension_of_def lower_def lower_char_def
        signature_ok_def jpeg_sig_def)
  have nodot: "CHR ''.'' \<notin> set (file_name (Some dotless_upload))"
    and named: "file_name (Some dotless_upload) \<noteq> []"
    by (simp_all add: file_name_def dotless_upload_def)
  from validate_file_spec [of default_validator no_guess "Some jpeg_upload"] ok
  have 1: "validate_file default_validator no_guess (Some jpeg_upload) = Inr True"
    by blast
  from validate_file_spec [of default_validator no_guess "Some dotless_upload"] nodot
  have "validate_file default_validator no_guess (Some dotless_upload) = Inl No_file_provided
        \<or> validate_file default_validator no_guess (Some dotless_upload)
           = Inl (File_type_not_allowed (allowed_extensions default_validator))"
    by blast
  moreover have "validate_file default_validator no_guess (Some dotless_upload) \<noteq> Inl No_file_provided"
    using validate_file_spec [of default_validator no_guess "Some dotless_upload"] named nodot
    by (simp add: extension_ok_def)
  ultimately have 2: "validate_file default_validator no_guess (Some dotless_upload)
       = Inl (File_type_not_allowed (allowed_extensions default_validator))"
    by blast
  from 1 2 nodot show ?thesis by simp
qed

section \<open>Properties of image loading\<close>

lemma py_int_div:
  "0 \<le> a \<Longrightarrow> 0 < b \<Longrightarrow> py_int (real_of_int a / real_of_int b) = a div b"
  by (simp add: py_int_def floor_divide_of_int_eq)

lemma Image_resize_Inr:
  "Image_resize w img nw nh = Inr r \<Longrightarrow>
     1 \<le> nw \<and> 1 \<le> nh \<and> int (width r) = nw \<and> int (height r) = nh \<and> mode r = mode img"
  by (auto simp: Image_resize_def split: if_splits sum.splits)

lemma resize_image_Inr:
  assumes "resize_image w img m = Inr r" and "int (max (width img) (height img)) > m"
  shows "mode r = mode img \<and>
     (if width img > height img
      then int (width r) = m \<and> int (height r) = (int (height img) * m) div int (width img)
      else int (height r) = m \<and> int (width r) = (int (width img) * m) div int (height img))"
proof (cases "width img > height img")
  case True
  from assms True obtain q where q: "truediv (int (height img) * m) (int (width img)) = Inr q"
    and r: "Image_resize w img m (py_int q) = Inr r"
    by (auto simp: resize_image_def split: sum.splits if_splits)
  from q True have qe: "q = real_of_int (int (height img) * m) / real_of_int (int (width img))"
    by (auto simp: truediv_def split: if_splits)
  from Image_resize_Inr [OF r] have m1: "1 \<le> m" and rr: "int (width r) = m" "int (height r) = py_int q"
    "mode r = mode img" by auto
  have "py_int q = (int (height img) * m) div int (width img)"
    unfolding qe using True m1 by (intro py_int_div) auto
  with rr True show ?thesis by simp
next
  case False
  from assms False obtain q where q: "truediv (int (width img) * m) (int (height img)) = Inr q"
    and r: "Image_resize w img (py_int q) m = Inr r"
    by (auto simp: resize_image_def split: sum.splits if_splits)
  from q have h0: "height img \<noteq> 0"
    and qe: "q = real_of_int (int (width img) * m) / real_of_int (int (height img))"
    by (auto simp: truediv_def split: if_splits)
  from Image_resize_Inr [OF r] have m1: "1 \<le> m" and rr: "int (height r) = m" "int (width r) = py_int q"
    "mode r = mode img" by auto
  have "py_int q = (int (width img) * m) div int (height img)"
    unfolding qe using h0 m1 by (intro py_int_div) auto
  with rr False show ?thesis by simp
qed

lemma scaled_le:
  fixes a b m :: int
  assumes "0 \<le> a" "a \<le> b" "0 < b" "0 \<le> m"
  shows "(a * m) div b \<le> m"
proof -
  have "a * m \<le> b * m" using assms by (simp add: mult_right_mono)
  then have "(a * m) div b \<le> (b * m) div b" using assms(3) by (rule zdiv_mono1)
  then show ?thesis using assms by simp
qed

lemma load_image_body_Inr:
  assumes "load_image_body w m path = Inr img"
  shows "mode img = ''RGB'' \<and> int (max (width img) (height img)) \<le> m \<and>
     (\<exists>opened. fs_open w path = Some (Inr opened) \<and>
        (if int (max (width opened) (height opened)) \<le> m
         then width img = width opened \<and> height img = height opened
         else if width opened > height opened
         then int (width img) = m \<and>
              int (height img) = (int (height opened) * m) div int (width opened)
         else int (height img) = m \<and>
              int (width img) = (int (width opened) * m) div int (height opened)))"
proof -
  from assms obtain opened where o: "fs_open w path = Some (Inr opened)"
    by (auto simp: load_image_body_def split: option.splits sum.splits)
  from assms o obtain conv where
    c: "(if mode opened \<noteq> ''RGB'' then Image_convert w opened ''RGB'' else Inr opened) = Inr conv"
    and r: "(if int (max (width conv) (height conv)) > m then resize_image w conv m else Inr conv) = Inr img"
    by (auto simp: load_image_body_def split: sum.splits)
  from c have cm: "mode conv = ''RGB''" and cw: "width conv = width opened"
    and ch: "height conv = height opened"
    by (auto simp: Image_convert_def split: if_splits sum.splits)
  show ?thesis
  proof (cases "int (max (width conv) (height conv)) > m")
    case False
    with r have "img = conv" by simp
    with False cm cw ch o show ?thesis by auto
  next
    case True
    with r have rs: "resize_image w conv m = Inr img" by simp
    note R = resize_image_Inr [OF rs True]
    from rs True obtain nw nh where ir: "Image_resize w conv nw nh = Inr img"
      by (auto simp: resize_image_def split: sum.splits if_splits)
    from Image_resize_Inr [OF ir] have pos: "1 \<le> int (width img)" "1 \<le> int (height img)" by auto
    have bound: "int (max (width img) (height img)) \<le> m"
    proof (cases "width conv > height conv")
      case True
      with R have e: "int (width img) = m"
        "int (height img) = (int (height conv) * m) div int (width conv)"
        by auto
      have "(int (height conv) * m) div int (width conv) \<le> m"
        using True e pos by (intro scaled_le) auto
      with e show ?thesis by (simp add: max_def)
    next
      case False
      with R have e: "int (height img) = m"
        "int (width img) = (int (width conv) * m) div int (height conv)"
        by auto
      have h0: "height conv \<noteq> 0" using rs True False
        by (auto simp: resize_image_def truediv_def split: sum.splits if_splits)
      have "(int (width conv) * m) div int (height conv) \<le> m"
        using False e pos h0 by (intro scaled_le) auto
      with e show ?thesis by (simp add: max_def)
    qed
    from R cm cw ch True o bound show ?thesis by auto
  qed
qed

text \<open>
  Claim C9. An image returned by \<open>load_image\<close> is in RGB mode and its larger side is at most
  the maximum. When the opened image is larger than the maximum, its larger side becomes the
  maximum and the other side is scaled by the same factor and truncated; otherwise the size is
  unchanged.
\<close>

theorem load_image_spec:
  assumes "load_image w m path = Inr img"
  shows "mode img = ''RGB'' \<and> int (max (width img) (height img)) \<le> m \<and>
     (\<exists>opened. fs_open w path = Some (Inr opened) \<and>
        (if int (max (width opened) (height opened)) \<le> m
         then width img = width opened \<and> height img = height opened
         else if width opened > height opened
         then int (width img) = m \<and>
              int (height img) = (int (height opened) * m) div int (width opened)
         else int (height img) = m \<and>
              int (width img) = (int (width opened) * m) div int (height opened)))"
proof -
  from assms have "load_image_body w m path = Inr img"
    by (simp add: load_image_def split: sum.splits)
  then show ?thesis by (rule load_image_body_Inr)
qed

theorem load_image_spec_witness:
  "load_image (world_with ''big.png'' wide_rgba) 4096 ''big.png''
     = Inr \<lparr> width = 4096, height = 2048, mode = ''RGB'', format = None, pixels = 1 \<rparr>
   \<and> int (max (4096::nat) 2048) \<le> 4096"
proof -
  have h: "load_image (world_with ''big.png'' wide_rgba) 4096 ''big.png''
     = Inr \<lparr> width = 4096, height = 2048, mode = ''RGB'', format = None, pixels = 1 \<rparr>"
    by (simp add: load_image_def load_image_body_def world_with_def bare_world_def wide_rgba_def
        Image_convert_def resize_image_def truediv_def py_int_def Image_resize_def)
  from load_image_spec [OF h] h show ?thesis by simp
qed

section \<open>Properties of the dispatcher\<close>

subsection \<open>The steps\<close>

lemma easyocr_loop_acc:
  "easyocr_loop dets (tp, tot, n) =
     (tp @ map det_text (accepted dets), tot + sum_list (map det_conf (accepted dets)),
      n + length (accepted dets))"
proof (induction dets arbitrary: tp tot n)
  case Nil
  show ?case by (simp add: accepted_def)
next
  case (Cons d dets)
  obtain b t c where d: "d = (b, t, c)" by (cases d)
  show ?case using Cons.IH by (simp add: d accepted_def)
qed

lemma strip_id: "s \<noteq> [] \<Longrightarrow> \<not> isspace (hd s) \<Longrightarrow> \<not> isspace (last s) \<Longrightarrow> strip s = s"
proof -
  assume a: "s \<noteq> []" "\<not> isspace (hd s)" "\<not> isspace (last s)"
  then have "dropWhile isspace s = s" by (cases s) auto
  moreover have "dropWhile isspace (rev s) = rev s"
    using a by (cases "rev s") (auto simp: last_rev hd_rev)
  ultimately show ?thesis by (simp add: strip_def)
qed

lemma demo_text_ends:
  "demo_text img \<noteq> [] \<and> \<not> isspace (hd (demo_text img)) \<and> \<not> isspace (last (demo_text img))"
proof -
  have h: "hd demo_head = CHR ''O''" "demo_head \<noteq> []" by (simp_all add: demo_head_def)
  have t: "last demo_tail = CHR ''t''" "demo_tail \<noteq> []" by (simp_all add: demo_tail_def)
  have "hd (demo_text img) = CHR ''O''" using h by (simp add: demo_text_def)
  moreover have "last (demo_text img) = CHR ''t''" using t by (simp add: demo_text_def)
  moreover have "demo_text img \<noteq> []" using h by (simp add: demo_text_def)
  ultimately show ?thesis by (simp add: isspace_def)
qed

lemma strip_demo_text: "strip (demo_text img) = demo_text img"
  using demo_text_ends [of img] by (simp add: strip_id)

lemma easyocr_step_cases:
  "easyocr_step w img =
     (case easyocr_readtext w img of
        Inl e \<Rightarrow> None
      | Inr dets \<Rightarrow> if accepted dets = [] then None else Some (easyocr_result (accepted dets)))"
  by (simp add: easyocr_step_def easyocr_loop_acc mean_def easyocr_result_def Let_def
      split: sum.splits)

lemma fallback_cases:
  "extract_text_fallback w img p =
     (case easyocr_step w img of
        Some r \<Rightarrow> ([EasyOCR], Inr r)
      | None \<Rightarrow>
          (case tesseract_step w img of
             Some r \<Rightarrow> ([EasyOCR, Tesseract], Inr r)
           | None \<Rightarrow> ([EasyOCR, Tesseract, Placeholder], extract_text_demo img p)))"
  by (simp add: extract_text_fallback_def extract_text_demo_def split: option.splits)

lemma api_limitation:
  "deepseek_api_key cfg \<noteq> [] \<Longrightarrow>
     \<exists>r. extract_text_api cfg img p = Inr r \<and> r ''method'' = Some (Str ''api_limitation'')"
  by (simp add: extract_text_api_def extract_text_api_body_def Let_def)

lemma dispatch_api_fallback:
  "(case api_outcome of Inl e \<Rightarrow> True | Inr r \<Rightarrow> r ''method'' = Some (Str ''api_limitation'')) \<Longrightarrow>
   dispatch_api w img p api_outcome =
     (RemoteAPI # fst (extract_text_fallback w img p), snd (extract_text_fallback w img p))"
  by (simp add: dispatch_api_def split: sum.splits prod.splits)

lemma dispatch_cases:
  "dispatch w ocr img p =
     (if local_ready ocr then ([LocalModel], extract_text_local w ocr img p)
      else if \<not> use_local (config ocr) \<and> deepseek_api_key (config ocr) \<noteq> []
      then (RemoteAPI # fst (extract_text_fallback w img p), snd (extract_text_fallback w img p))
      else extract_text_fallback w img p)"
proof (cases "\<not> local_ready ocr \<and> \<not> use_local (config ocr) \<and> deepseek_api_key (config ocr) \<noteq> []")
  case True
  then obtain r where r: "extract_text_api (config ocr) img p = Inr r"
    "r ''method'' = Some (Str ''api_limitation'')" using api_limitation by blast
  then have "dispatch_api w img p (extract_text_api (config ocr) img p) =
     (RemoteAPI # fst (extract_text_fallback w img p), snd (extract_text_fallback w img p))"
    by (intro dispatch_api_fallback) simp
  with True show ?thesis
    by (simp add: dispatch_def local_ready_def Let_def)
next
  case False
  then show ?thesis by (auto simp: dispatch_def local_ready_def Let_def)
qed

lemma extract_text_cases:
  "extract_text w ocr path p =
     (case prepared_image w (config ocr) path of
        Inl e \<Rightarrow> ([], Inl (reraise e))
      | Inr img \<Rightarrow>
          (fst (dispatch w ocr img p),
           (case snd (dispatch w ocr img p) of
              Inl e \<Rightarrow> Inl (reraise e)
            | Inr r \<Rightarrow> Inr (r ++ metadata (config ocr) path img))))"
  by (simp add: extract_text_def prepared_image_def Let_def split: sum.splits prod.splits)

lemma metadata_other:
  "k \<noteq> ''image_path'' \<Longrightarrow> k \<noteq> ''image_size'' \<Longrightarrow> k \<noteq> ''model_used'' \<Longrightarrow>
   k \<noteq> ''processing_method'' \<Longrightarrow> (r ++ metadata cfg path img) k = r k"
  by (simp add: metadata_def map_add_def)

lemma metadata_path: "(r ++ metadata cfg path img) ''image_path'' = Some (Str path)"
  by (simp add: metadata_def map_add_def)

subsection \<open>Rounding and means\<close>

lemma round_half_even_near: "\<bar>real_of_int (round_half_even x) - x\<bar> \<le> 1 / 2"
proof -
  have "real_of_int \<lfloor>x\<rfloor> \<le> x" "x < real_of_int \<lfloor>x\<rfloor> + 1" by linarith+
  then show ?thesis by (auto simp: round_half_even_def Let_def)
qed


lemma round_half_even_between:
  "real_of_int a \<le> x \<Longrightarrow> x \<le> real_of_int b \<Longrightarrow> a \<le> round_half_even x \<and> round_half_even x \<le> b"
proof -
  assume a: "real_of_int a \<le> x" "x \<le> real_of_int b"
  have n: "\<bar>real_of_int (round_half_even x) - x\<bar> \<le> 1 / 2" by (rule round_half_even_near)
  from a n have "real_of_int (round_half_even x) < real_of_int b + 1"
    "real_of_int a - 1 < real_of_int (round_half_even x)" by linarith+
  then have "round_half_even x < b + 1" "a - 1 < round_half_even x"
    by linarith+
  then show ?thesis by simp
qed

lemma py_round2_unit: "0 \<le> x \<Longrightarrow> x \<le> 1 \<Longrightarrow> 0 \<le> py_round2 x \<and> py_round2 x \<le> 1"
  using round_half_even_between [of 0 "x * 100" 100] by (simp add: py_round2_def)

lemma sum_list_bounds:
  fixes xs :: "real list"
  shows "\<forall>x \<in> set xs. a \<le> x \<and> x \<le> b \<Longrightarrow>
     a * real (length xs) \<le> sum_list xs \<and> sum_list xs \<le> b * real (length xs)"
  by (induction xs) (auto simp: algebra_simps)

lemma mean_bounds:
  assumes "xs \<noteq> []" "\<forall>x \<in> set xs. a \<le> x \<and> x \<le> b"
  shows "a \<le> mean xs \<and> mean xs \<le> b"
proof -
  have l: "0 < real (length xs)" using assms(1) by simp
  from sum_list_bounds [OF assms(2)] l show ?thesis
    by (simp add: mean_def pos_le_divide_eq pos_divide_le_eq)
qed

subsection \<open>The example dispatchers\<close>

lemma ocr_plain_simps:
  "config ocr_plain = plain_config\<lparr>use_local := False\<rparr>" "\<not> model_loaded ocr_plain"
  "\<not> local_ready ocr_plain"
  by (simp_all add: ocr_plain_def DeepSeekOCR_init_def load_local_model_def plain_config_def
      default_config_def local_ready_def)


lemma ocr_api_simps:
  "config ocr_api = api_config" "\<not> model_loaded ocr_api" "\<not> local_ready ocr_api"
  by (simp_all add: ocr_api_def DeepSeekOCR_init_def api_config_def plain_config_def
      default_config_def local_ready_def)

lemma ocr_local_simps:
  "config ocr_local = plain_config" "model_loaded ocr_local" "tokenizer_loaded ocr_local"
  "local_ready ocr_local"
  by (simp_all add: ocr_local_def DeepSeekOCR_init_def load_local_model_def plain_config_def
      default_config_def local_ready_def)

lemma config_values:
  "max_image_size plain_config = 4096" "\<not> pp_enabled (preprocessing plain_config)"
  "max_image_size api_config = 4096" "\<not> pp_enabled (preprocessing api_config)"
  "deepseek_api_key api_config = ''sk-test''" "\<not> use_local api_config"
  "deepseek_api_key plain_config = []"
  "max_image_size default_config = 4096" "preprocessing default_config =
     \<lparr> pp_enabled = True, pp_resize = True, pp_denoise = True, pp_enhance_contrast = True \<rparr>"
  "deepseek_api_key default_config = []"
  by (simp_all add: api_config_def plain_config_def default_config_def)

lemma prepared_unchanged:
  assumes "fs_open w path = Some (Inr img)" "mode img = ''RGB''"
    "int (max (width img) (height img)) \<le> max_image_size cfg" "\<not> pp_enabled (preprocessing cfg)"
  shows "prepared_image w cfg path = Inr img"
  using assms by (simp add: prepared_image_def load_image_def load_image_body_def)

lemma prepared_missing:
  "fs_open w path = None \<Longrightarrow>
   prepared_image w cfg path
     = Inl (Raise ImageProcessingError (''Image loading failed: '' @ (''Image file not found: '' @ path)))"
  by (simp add: prepared_image_def load_image_def load_image_body_def)

lemma white_100_values:
  "mode white_100 = ''RGB''" "width white_100 = 100" "height white_100 = 100"
  by (simp_all add: white_100_def)

lemma world_with_open:
  "fs_open (world_with path img) path = Some (Inr img)"
  "p \<noteq> path \<Longrightarrow> fs_open (world_with path img) p = None"
  "easyocr_readtext (world_with path img) = easyocr_readtext bare_world"
  "pytesseract_image_to_string (world_with path img) = pytesseract_image_to_string bare_world"
  "model_generate (world_with path img) = model_generate bare_world"
  by (simp_all add: world_with_def)

lemma bare_world_engines:
  "fs_open bare_world p = None"
  "easyocr_readtext bare_world i = Inl (Raise ImportError ''No module named easyocr'')"
  "pytesseract_image_to_string bare_world i = Inl (Raise ImportError ''No module named pytesseract'')"
  by (simp_all add: bare_world_def)

lemma with_updates:
  "fs_open (with_tesseract out w) = fs_open w" "easyocr_readtext (with_tesseract out w) = easyocr_readtext w"
  "pytesseract_image_to_string (with_tesseract out w) i = Inr out"
  "fs_open (with_easyocr dets w) = fs_open w" "easyocr_readtext (with_easyocr dets w) i = Inr dets"
  "pytesseract_image_to_string (with_easyocr dets w) = pytesseract_image_to_string w"
  "fs_open (with_model resp w) = fs_open w" "model_generate (with_model resp w) i q = Inr resp"
  by (simp_all add: with_tesseract_def with_easyocr_def with_model_def)

lemma bare_steps:
  "easyocr_step (world_with path img) i = None" "tesseract_step (world_with path img) i = None"
  "easyocr_step bare_world i = None" "tesseract_step bare_world i = None"
  by (simp_all add: easyocr_step_cases tesseract_step_def world_with_open bare_world_engines)

subsection \<open>The steps attempted\<close>

lemma easyocr_step_method:
  "easyocr_step w img = Some r \<Longrightarrow> r ''method'' = Some (Str ''easyocr_fallback'')"
  by (auto simp: easyocr_step_cases easyocr_result_def split: sum.splits if_splits)

lemma tesseract_step_method:
  "tesseract_step w img = Some r \<Longrightarrow> r ''method'' = Some (Str ''tesseract_fallback'')"
  by (auto simp: tesseract_step_def split: sum.splits if_splits)

lemma demo_method:
  "\<exists>r. extract_text_demo img p = Inr r \<and> r ''method'' = Some (Str ''demo_mode'')"
  by (simp add: extract_text_demo_def)


text \<open>The fallback chain returns a result, made by the last step it tried.\<close>

lemma fallback_trace:
  "\<exists>tr r. extract_text_fallback w img p = (tr, Inr r)
     \<and> tr \<in> {[EasyOCR], [EasyOCR, Tesseract], [EasyOCR, Tesseract, Placeholder]}
     \<and> r ''method'' = Some (Str (method_tag (last tr)))"
proof (cases "easyocr_step w img")
  case (Some r)
  with easyocr_step_method [OF Some] show ?thesis by (simp add: fallback_cases)
next
  case None
  note e = None
  show ?thesis
  proof (cases "tesseract_step w img")
    case (Some r)
    with e tesseract_step_method [OF Some] show ?thesis by (simp add: fallback_cases)
  next
    case None
    from demo_method [of img p] obtain r where "extract_text_demo img p = Inr r"
      "r ''method'' = Some (Str ''demo_mode'')" by blast
    with e None show ?thesis by (simp add: fallback_cases)
  qed
qed






subsection \<open>The EasyOCR step\<close>





subsection \<open>The API step\<close>

lemma init_invariant:
  assumes "ocr = DeepSeekOCR_init cfg pe tf mf ef"
  shows "(use_local (config ocr) \<longrightarrow> model_loaded ocr \<and> tokenizer_loaded ocr)
     \<and> deepseek_api_key (config ocr) = deepseek_api_key cfg
     \<and> (model_loaded ocr \<longrightarrow> tokenizer_loaded ocr)"
  using assms
  by (auto simp: DeepSeekOCR_init_def load_local_model_def Let_def split: option.splits if_splits)

text \<open>
  Claim C3. For a dispatcher built by the constructor with an API key configured and no local
  model loaded, \<open>extract_text\<close> calls the API first and then continues with the fallback
  engines: the steps are the API step followed by those of the fallback chain, and the result
  returned is the one of the fallback chain (with the metadata added), never the notice or the
  error result of the API. In the \<open>try\<close> block around the API call both an exception and a
  limitation notice lead to the fallback chain.
\<close>

theorem api_failure_falls_back:
  assumes "ocr = DeepSeekOCR_init cfg path_exists tokenizer_fails model_fails eval_fails"
    and "deepseek_api_key cfg \<noteq> []"
    and "\<not> model_loaded ocr"
    and "prepared_image w (config ocr) path = Inr img"
  shows "fst (extract_text w ocr path p) = RemoteAPI # fst (extract_text_fallback w img p)
     \<and> (\<exists>r. snd (extract_text_fallback w img p) = Inr r
            \<and> snd (extract_text w ocr path p) = Inr (r ++ metadata (config ocr) path img))
     \<and> field ''method'' (extract_text w ocr path p)
          \<in> {Some (Str ''easyocr_fallback''), Some (Str ''tesseract_fallback''), Some (Str ''demo_mode'')}
     \<and> (\<forall>e. dispatch_api w img p (Inl e)
            = (RemoteAPI # fst (extract_text_fallback w img p), snd (extract_text_fallback w img p)))
     \<and> (\<forall>r. r ''method'' = Some (Str ''api_limitation'') \<longrightarrow>
            dispatch_api w img p (Inr r)
            = (RemoteAPI # fst (extract_text_fallback w img p), snd (extract_text_fallback w img p)))"
proof -
  from init_invariant [OF assms(1)] assms(2,3)
  have nl: "\<not> use_local (config ocr)" and key: "deepseek_api_key (config ocr) \<noteq> []"
    and nr: "\<not> local_ready ocr"
    by (auto simp: local_ready_def)
  from fallback_trace [of w img p] obtain tr r where
    f: "extract_text_fallback w img p = (tr, Inr r)"
    "tr \<in> {[EasyOCR], [EasyOCR, Tesseract], [EasyOCR, Tesseract, Placeholder]}"
    "r ''method'' = Some (Str (method_tag (last tr)))" by blast
  have d: "dispatch w ocr img p = (RemoteAPI # tr, Inr r)"
    using nl key nr f by (simp add: dispatch_cases)
  have e: "extract_text w ocr path p = (RemoteAPI # tr, Inr (r ++ metadata (config ocr) path img))"
    using assms(4) d by (simp add: extract_text_cases)
  have m: "field ''method'' (extract_text w ocr path p) = Some (Str (method_tag (last tr)))"
    using e f(3) by (simp add: field_def metadata_other)
  have 1: "fst (extract_text w ocr path p) = RemoteAPI # fst (extract_text_fallback w img p)"
    using e f by simp
  have 2: "\<exists>r. snd (extract_text_fallback w img p) = Inr r
            \<and> snd (extract_text w ocr path p) = Inr (r ++ metadata (config ocr) path img)"
    using e f by simp
  have 3: "field ''method'' (extract_text w ocr path p)
          \<in> {Some (Str ''easyocr_fallback''), Some (Str ''tesseract_fallback''), Some (Str ''demo_mode'')}"
    using m f(2) by auto
  have 4: "\<forall>e. dispatch_api w img p (Inl e)
            = (RemoteAPI # fst (extract_text_fallback w img p), snd (extract_text_fallback w img p))"
    by (simp add: dispatch_api_fallback)
  have 5: "\<forall>r. r ''method'' = Some (Str ''api_limitation'') \<longrightarrow>
            dispatch_api w img p (Inr r)
            = (RemoteAPI # fst (extract_text_fallback w img p), snd (extract_text_fallback w img p))"
    by (simp add: dispatch_api_fallback)
  from 1 2 3 4 5 show ?thesis by blast
qed

theorem api_failure_falls_back_witness:
  "fst (extract_text (world_with ''white.jpg'' white_100) ocr_api ''white.jpg'' None)
     = [RemoteAPI, EasyOCR, Tesseract, Placeholder]
   \<and> field ''method'' (extract_text (world_with ''white.jpg'' white_100) ocr_api ''white.jpg'' None)
       \<in> {Some (Str ''easyocr_fallback''), Some (Str ''tesseract_fallback''), Some (Str ''demo_mode'')}"
proof -
  have pi: "prepared_image (world_with ''white.jpg'' white_100) (config ocr_api) ''white.jpg''
      = Inr white_100"
    unfolding ocr_api_simps
    by (rule prepared_unchanged) (simp_all add: world_with_open white_100_values config_values)
  have k: "deepseek_api_key api_config \<noteq> []" by (simp add: config_values)
  have f: "fst (extract_text_fallback (world_with ''white.jpg'' white_100) white_100 None)
      = [EasyOCR, Tesseract, Placeholder]"
    by (simp add: fallback_cases bare_steps)
  from api_failure_falls_back [OF ocr_api_def k ocr_api_simps(2) pi, of None] f
  show ?thesis by simp
qed

subsection \<open>Exceptions of the dispatch\<close>

lemma reraise_form:
  "exn_class_of (reraise e) = OCRError \<and> prefix ''Text extraction failed: '' (str_exn (reraise e))"
  by (simp add: reraise_def)

text \<open>
  Claim C1, amended. \<open>extract_text\<close> either returns a result or raises \<open>OCRError\<close> with a
  message starting "Text extraction failed: "; no other exception leaves it. A failure to load
  or preprocess the image is raised in this way, and so is a failure of the local model when
  that is the chosen method. When the image is ready and the local model is not the chosen
  method, the call always returns: the failures of the API, EasyOCR and Tesseract steps are
  caught and lead to the next step.
\<close>

theorem extract_text_raises_only_OCRError:
  "(case snd (extract_text w ocr path p) of
      Inr r \<Rightarrow> True
    | Inl e \<Rightarrow> exn_class_of e = OCRError \<and> prefix ''Text extraction failed: '' (str_exn e))
   \<and> (\<forall>e. prepared_image w (config ocr) path = Inl e \<longrightarrow>
          snd (extract_text w ocr path p) = Inl (reraise e))
   \<and> (\<forall>img. prepared_image w (config ocr) path = Inr img \<and> \<not> local_ready ocr \<longrightarrow>
          (\<exists>r. snd (extract_text w ocr path p) = Inr r))
   \<and> (\<forall>img e. prepared_image w (config ocr) path = Inr img \<and> local_ready ocr
          \<and> extract_text_local w ocr img p = Inl e \<longrightarrow>
          snd (extract_text w ocr path p) = Inl (reraise e))"
proof -
  have 1: "case snd (extract_text w ocr path p) of
      Inr r \<Rightarrow> True
    | Inl e \<Rightarrow> exn_class_of e = OCRError \<and> prefix ''Text extraction failed: '' (str_exn e)"
    using reraise_form by (simp add: extract_text_cases split: sum.splits)
  have 2: "\<forall>e. prepared_image w (config ocr) path = Inl e \<longrightarrow>
          snd (extract_text w ocr path p) = Inl (reraise e)"
    by (simp add: extract_text_cases)
  have 3: "\<forall>img. prepared_image w (config ocr) path = Inr img \<and> \<not> local_ready ocr \<longrightarrow>
          (\<exists>r. snd (extract_text w ocr path p) = Inr r)"
  proof (intro allI impI)
    fix img assume a: "prepared_image w (config ocr) path = Inr img \<and> \<not> local_ready ocr"
    from fallback_trace [of w img p] obtain tr r where
      "extract_text_fallback w img p = (tr, Inr r)" by blast
    with a show "\<exists>r. snd (extract_text w ocr path p) = Inr r"
      by (simp add: extract_text_cases dispatch_cases)
  qed
  have 4: "\<forall>img e. prepared_image w (config ocr) path = Inr img \<and> local_ready ocr
          \<and> extract_text_local w ocr img p = Inl e \<longrightarrow>
          snd (extract_text w ocr path p) = Inl (reraise e)"
    by (simp add: extract_text_cases dispatch_cases)
  from 1 2 3 4 show ?thesis by blast
qed

text \<open>A path that does not exist makes \<open>extract_text\<close> raise.\<close>

theorem extract_text_raises_on_missing_file:
  "snd (extract_text bare_world ocr_default ''nonexistent_image.jpg'' None)
     = Inl (Raise OCRError
         ''Text extraction failed: Image loading failed: Image file not found: nonexistent_image.jpg'')"
  by (simp add: extract_text_cases prepared_missing bare_world_engines reraise_def)

theorem extract_text_raises_only_OCRError_witness:
  "snd (extract_text bare_world ocr_default ''nonexistent_image.jpg'' None)
     = Inl (reraise (Raise ImageProcessingError
         ''Image loading failed: Image file not found: nonexistent_image.jpg''))
   \<and> (\<exists>r. snd (extract_text (world_with ''white.jpg'' white_100) ocr_plain ''white.jpg'' None) = Inr r)
   \<and> snd (extract_text (world_with ''white.jpg'' white_100) ocr_local ''white.jpg'' None)
       = Inl (reraise (Raise OCRError ''Local OCR processing failed: generation failed''))"
proof -
  have c: "prepared_image (world_with ''white.jpg'' white_100) (config ocr_local) ''white.jpg''
      = Inr white_100"
    unfolding ocr_local_simps
    by (rule prepared_unchanged) (simp_all add: world_with_open white_100_values config_values)
  have l: "extract_text_local (world_with ''white.jpg'' white_100) ocr_local white_100 None
      = Inl (Raise OCRError ''Local OCR processing failed: generation failed'')"
    by (simp add: extract_text_local_def extract_text_local_body_def ocr_local_simps
        world_with_open bare_world_def)
  from extract_text_raises_only_OCRError
    [of "world_with ''white.jpg'' white_100" ocr_local "''white.jpg''" None] c l ocr_local_simps(4)
  have third: "snd (extract_text (world_with ''white.jpg'' white_100) ocr_local ''white.jpg'' None)
       = Inl (reraise (Raise OCRError ''Local OCR processing failed: generation failed''))"
    by blast
  have a: "prepared_image bare_world (config ocr_default) ''nonexistent_image.jpg''
     = Inl (Raise ImageProcessingError
         ''Image loading failed: Image file not found: nonexistent_image.jpg'')"
    by (simp add: prepared_missing bare_world_engines)
  have b: "prepared_image (world_with ''white.jpg'' white_100) (config ocr_plain) ''white.jpg''
      = Inr white_100"
    unfolding ocr_plain_simps
    by (rule prepared_unchanged) (simp_all add: world_with_open white_100_values config_values)
  from extract_text_raises_only_OCRError [of bare_world ocr_default "''nonexistent_image.jpg''" None] a
  have "snd (extract_text bare_world ocr_default ''nonexistent_image.jpg'' None)
     = Inl (reraise (Raise ImageProcessingError
         ''Image loading failed: Image file not found: nonexistent_image.jpg''))"
    by blast
  moreover
  from extract_text_raises_only_OCRError
    [of "world_with ''white.jpg'' white_100" ocr_plain "''white.jpg''" None] b ocr_plain_simps(3)
  have "\<exists>r. snd (extract_text (world_with ''white.jpg'' white_100) ocr_plain ''white.jpg'' None) = Inr r"
    by blast
  ultimately show ?thesis using third by blast
qed

subsection \<open>Batch extraction\<close>

lemma batch_loop_map:
  "batch_loop w ocr p paths acc = acc @ map (batch_item w ocr p) paths"
  by (induction paths arbitrary: acc) (simp_all add: batch_item_def split: sum.splits)

lemma batch_map: "batch_extract_text w ocr paths p = map (batch_item w ocr p) paths"
  by (simp add: batch_extract_text_def batch_loop_map)

lemma batch_item_path: "batch_item w ocr p path ''image_path'' = Some (Str path)"
proof (cases "prepared_image w (config ocr) path")
  case (Inl e)
  then show ?thesis by (simp add: batch_item_def extract_text_cases failure_record_def)
next
  case (Inr img)
  then show ?thesis
    by (cases "snd (dispatch w ocr img p)")
      (simp_all add: batch_item_def extract_text_cases failure_record_def metadata_path)
qed

text \<open>
  Claim C4. \<open>batch_extract_text\<close> returns one entry per path, in the order of the paths: the
  entry at position \<open>i\<close> is the result of \<open>extract_text\<close> on the path at position \<open>i\<close>, or,
  when that call raises, a failure record with \<open>success\<close> false and the message of the
  exception. Each entry carries its own path and depends on no other path: an item that fails
  in the middle of the list leaves the entries before and after it as they are in a batch
  without it.
\<close>

theorem batch_extract_text_spec:
  "length (batch_extract_text w ocr paths p) = length paths
   \<and> (\<forall>i < length paths.
         batch_extract_text w ocr paths p ! i = batch_item w ocr p (paths ! i)
         \<and> (batch_extract_text w ocr paths p ! i) ''image_path'' = Some (Str (paths ! i))
         \<and> (\<forall>r. snd (extract_text w ocr (paths ! i) p) = Inr r \<longrightarrow>
               batch_extract_text w ocr paths p ! i = r)
         \<and> (\<forall>e. snd (extract_text w ocr (paths ! i) p) = Inl e \<longrightarrow>
               batch_extract_text w ocr paths p ! i = failure_record (paths ! i) e
               \<and> (batch_extract_text w ocr paths p ! i) ''success'' = Some (Bool False)
               \<and> (batch_extract_text w ocr paths p ! i) ''error'' = Some (Str (str_exn e))))
   \<and> (\<forall>before bad after. paths = before @ [bad] @ after \<longrightarrow>
         batch_extract_text w ocr paths p
           = batch_extract_text w ocr before p @ [batch_item w ocr p bad]
             @ batch_extract_text w ocr after p)"
  by (simp add: batch_map batch_item_path) (simp add: batch_item_def failure_record_def)

theorem batch_extract_text_spec_witness:
  "length (batch_extract_text (world_with ''white.jpg'' white_100) ocr_plain
      [''white.jpg'', ''nonexistent_image.jpg'', ''white.jpg''] None) = 3
   \<and> (batch_extract_text (world_with ''white.jpg'' white_100) ocr_plain
      [''white.jpg'', ''nonexistent_image.jpg'', ''white.jpg''] None ! 1) ''success''
       = Some (Bool False)
   \<and> (batch_extract_text (world_with ''white.jpg'' white_100) ocr_plain
      [''white.jpg'', ''nonexistent_image.jpg'', ''white.jpg''] None ! 2) ''image_path''
       = Some (Str ''white.jpg'')"
proof -
  let ?w = "world_with ''white.jpg'' white_100"
  let ?ps = "[''white.jpg'', ''nonexistent_image.jpg'', ''white.jpg'']"
  have "fs_open ?w ''nonexistent_image.jpg'' = None" by (simp add: world_with_def)
  then have e: "snd (extract_text ?w ocr_plain (?ps ! 1) None)
     = Inl (reraise (Raise ImageProcessingError
         (''Image loading failed: '' @ (''Image file not found: '' @ ''nonexistent_image.jpg''))))"
    by (simp add: extract_text_cases prepared_missing)
  have i1: "(1::nat) < length ?ps" and i2: "(2::nat) < length ?ps" by simp_all
  note S = batch_extract_text_spec [of ?w ocr_plain ?ps None]
  from S have "length (batch_extract_text ?w ocr_plain ?ps None) = 3" by simp
  moreover from S i1 e have "(batch_extract_text ?w ocr_plain ?ps None ! 1) ''success'' = Some (Bool False)"
    by blast
  moreover from S i2 have "(batch_extract_text ?w ocr_plain ?ps None ! 2) ''image_path'' = Some (Str (?ps ! 2))"
    by blast
  ultimately show ?thesis by simp
qed

subsection \<open>Confidence and text of a result\<close>

lemma accepted_conf: "d \<in> set (accepted dets) \<Longrightarrow> d \<in> set dets \<and> 3 / 10 < det_conf d"
  by (simp add: accepted_def)

lemma easyocr_step_fields:
  assumes "easyocr_step w img = Some r" and "easyocr_probabilities w"
  shows "\<exists>c t. r ''confidence'' = Some (Num c) \<and> 0 \<le> c \<and> c \<le> 1 \<and> r ''text'' = Some (Str t)"
proof -
  from assms(1) obtain dets where d: "easyocr_readtext w img = Inr dets" "accepted dets \<noteq> []"
    and r: "r = easyocr_result (accepted dets)"
    by (auto simp: easyocr_step_cases split: sum.splits if_splits)
  have "\<forall>x \<in> set (map det_conf (accepted dets)). 0 \<le> x \<and> x \<le> 1"
  proof
    fix x assume "x \<in> set (map det_conf (accepted dets))"
    then obtain dd where dd: "dd \<in> set (accepted dets)" "x = det_conf dd" by auto
    from accepted_conf [OF dd(1)] have "dd \<in> set dets" "3 / 10 < det_conf dd" by simp_all
    moreover from assms(2) d(1) \<open>dd \<in> set dets\<close> have "det_conf dd \<le> 1"
      by (auto simp: easyocr_probabilities_def)
    ultimately show "0 \<le> x \<and> x \<le> 1" using dd(2) by simp
  qed
  with d(2) have "0 \<le> mean (map det_conf (accepted dets)) \<and> mean (map det_conf (accepted dets)) \<le> 1"
    by (intro mean_bounds) simp_all
  then have "0 \<le> py_round2 (mean (map det_conf (accepted dets)))
      \<and> py_round2 (mean (map det_conf (accepted dets))) \<le> 1"
    by (intro py_round2_unit) simp_all
  then show ?thesis by (simp add: r easyocr_result_def)
qed

lemma tesseract_step_fields:
  "tesseract_step w img = Some r \<Longrightarrow>
     \<exists>out. pytesseract_image_to_string w img = Inr out \<and> strip out \<noteq> []
       \<and> r ''confidence'' = Some (Num (7 / 10)) \<and> r ''text'' = Some (Str (strip out))
       \<and> r ''method'' = Some (Str ''tesseract_fallback'')"
  by (auto simp: tesseract_step_def split: sum.splits if_splits)

lemma demo_fields:
  "\<exists>r. extract_text_demo img p = Inr r \<and> r ''confidence'' = Some (Num 0)
      \<and> r ''text'' = Some (Str (demo_text img)) \<and> r ''method'' = Some (Str ''demo_mode'')"
  by (simp add: extract_text_demo_def strip_demo_text)

lemma local_fields:
  "extract_text_local w ocr img p = Inr r \<Longrightarrow>
     \<exists>response. model_generate w img (case p of None \<Rightarrow> default_prompt | Some q \<Rightarrow> q) = Inr response
       \<and> r ''confidence'' = Some (Num 1) \<and> r ''text'' = Some (Str (strip response))
       \<and> r ''method'' = Some (Str ''deepseek_local'')"
  by (auto simp: extract_text_local_def extract_text_local_body_def Let_def
      split: sum.splits if_splits)

lemma demo_text_nonempty: "demo_text img \<noteq> []"
  using demo_text_ends by blast

lemma fallback_well_formed:
  assumes "easyocr_probabilities w" "snd (extract_text_fallback w img p) = Inr r"
  shows "well_formed r"
proof (cases "easyocr_step w img")
  case (Some r')
  with assms(2) have "r' = r" by (simp add: fallback_cases)
  with Some easyocr_step_fields [OF _ assms(1)] easyocr_step_method show ?thesis
    by (fastforce simp: well_formed_def final_methods_def)
next
  case None
  note e = None
  show ?thesis
  proof (cases "tesseract_step w img")
    case (Some r')
    with e assms(2) have "r' = r" by (simp add: fallback_cases)
    with Some tesseract_step_fields [of w img r] show ?thesis
      by (auto simp: well_formed_def final_methods_def)
  next
    case None
    with e assms(2) have "extract_text_demo img p = Inr r" by (simp add: fallback_cases)
    with demo_fields [of img p] demo_text_nonempty [of img] show ?thesis
      by (auto simp: well_formed_def final_methods_def)
  qed
qed

lemma dispatch_well_formed:
  assumes "easyocr_probabilities w" "snd (dispatch w ocr img p) = Inr r"
  shows "well_formed r"
proof (cases "local_ready ocr")
  case True
  with assms(2) have "extract_text_local w ocr img p = Inr r" by (simp add: dispatch_cases)
  from local_fields [OF this] show ?thesis
    by (auto simp: well_formed_def final_methods_def)
next
  case False
  with assms(2) have "snd (extract_text_fallback w img p) = Inr r"
    by (simp add: dispatch_cases split: if_splits)
  with assms(1) show ?thesis by (rule fallback_well_formed)
qed

lemma well_formed_metadata: "well_formed r \<Longrightarrow> well_formed (r ++ metadata cfg path img)"
  by (simp add: well_formed_def metadata_other)

text \<open>
  Claim C2, amended. Provided EasyOCR reports the confidence of each detection as a number of
  at most 1, every result returned by \<open>extract_text\<close> has a confidence in the closed interval
  from 0 to 1 and a text that is a string, and its method is that of the local model, EasyOCR,
  Tesseract or the placeholder. The text is non-empty when the result comes from Tesseract or
  from the placeholder.
\<close>

theorem extract_text_result_form:
  assumes "easyocr_probabilities w" and "snd (extract_text w ocr path p) = Inr r"
  shows "(\<exists>c. r ''confidence'' = Some (Num c) \<and> 0 \<le> c \<and> c \<le> 1)
     \<and> (\<exists>t. r ''text'' = Some (Str t)
            \<and> (r ''method'' = Some (Str ''tesseract_fallback'') \<or> r ''method'' = Some (Str ''demo_mode'')
                 \<longrightarrow> t \<noteq> []))
     \<and> (\<exists>m \<in> final_methods. r ''method'' = Some m)"
proof -
  from assms(2) obtain img r' where "snd (dispatch w ocr img p) = Inr r'"
    and r: "r = r' ++ metadata (config ocr) path img"
    by (auto simp: extract_text_cases split: sum.splits)
  with assms(1) have "well_formed r'" using dispatch_well_formed by blast
  then have "well_formed r" unfolding r by (rule well_formed_metadata)
  then show ?thesis by (simp add: well_formed_def)
qed

theorem extract_text_result_form_witness:
  "easyocr_probabilities (with_easyocr three_detections (world_with ''white.jpg'' white_100))
   \<and> (\<exists>r. snd (extract_text (with_easyocr three_detections (world_with ''white.jpg'' white_100))
                 ocr_plain ''white.jpg'' None) = Inr r
          \<and> (\<exists>c. r ''confidence'' = Some (Num c) \<and> 0 \<le> c \<and> c \<le> 1))"
proof -
  let ?w = "with_easyocr three_detections (world_with ''white.jpg'' white_100)"
  have P: "easyocr_probabilities ?w"
    by (simp add: easyocr_probabilities_def with_updates three_detections_def)
  have pi: "prepared_image ?w (config ocr_plain) ''white.jpg'' = Inr white_100"
    unfolding ocr_plain_simps
    by (rule prepared_unchanged)
      (simp_all add: with_updates world_with_open white_100_values config_values)
  from fallback_trace [of ?w white_100 None] obtain tr r0 where
    "extract_text_fallback ?w white_100 None = (tr, Inr r0)" by blast
  then have "\<exists>r. snd (extract_text ?w ocr_plain ''white.jpg'' None) = Inr r"
    using pi ocr_plain_simps(3) by (simp add: extract_text_cases dispatch_cases)
  then obtain r where r: "snd (extract_text ?w ocr_plain ''white.jpg'' None) = Inr r" by blast
  from extract_text_result_form [OF P r] r P show ?thesis by blast
qed

text \<open>A local model that answers with blanks gives an empty text.\<close>

theorem local_model_empty_text:
  "field ''text'' (extract_text (with_model ''  '' (world_with ''white.jpg'' white_100))
      ocr_local ''white.jpg'' None) = Some (Str [])"
proof -
  let ?w = "with_model ''  '' (world_with ''white.jpg'' white_100)"
  have pi: "prepared_image ?w plain_config ''white.jpg'' = Inr white_100"
    by (rule prepared_unchanged)
      (simp_all add: with_updates world_with_open white_100_values config_values)
  have l: "extract_text_local ?w ocr_local white_100 None
      = Inr [''text'' \<mapsto> Str [], ''confidence'' \<mapsto> Num 1, ''method'' \<mapsto> Str ''deepseek_local'']"
    by (simp add: extract_text_local_def extract_text_local_body_def ocr_local_simps
        with_updates strip_def isspace_def)
  show ?thesis
    by (simp add: field_def extract_text_cases ocr_local_simps pi dispatch_cases l metadata_other)
qed

subsection \<open>The text of a result\<close>












subsection \<open>The placeholder\<close>









end
